theory Spec2Isabelle
  imports Main "HOL-Library.Sublist"
begin

section \<open>Data model of \<^verbatim>\<open>spark_ec2.py\<close>\<close>

text \<open>
  The script drives a cloud provider through the \<^verbatim>\<open>boto\<close> library. Everything the
  provider, the network or the local machine answers is an input of the model; everything
  the script asks of them is recorded in a list of effects. Python exceptions are values
  of \<open>py_exn\<close>; a computation that may raise returns \<open>py_exn + 'a\<close>.
\<close>

datatype py_exn =
    ZeroDivisionError | IndexError | ValueError | TypeError | AttributeError | NameError
  | URLError | CalledProcessError | EC2ResponseError | KeyboardInterrupt | SystemExit int

text \<open>The fields of the option bag \<^verbatim>\<open>opts\<close> that the modelled functions read.\<close>

record opts =
  instance_type :: string
  slaves :: int
  ganglia :: bool

text \<open>A \<^verbatim>\<open>boto\<close> instance: identifier, lifecycle state, tag dictionary and address.\<close>

record ec2_instance =
  inst_id :: string
  inst_state :: string
  inst_tags :: "(string \<times> string) list"
  public_dns_name :: string

record reservation =
  instances :: "ec2_instance list"


text \<open>
  A security group as \<^verbatim>\<open>boto\<close> returns it: its name and its ingress rules, each rule
  with the grants (source groups or address ranges) it admits.
\<close>

record ip_permission =
  ip_protocol :: string
  from_port :: int
  to_port :: int
  grants :: "string list"


text \<open>
  The arguments of one \<^verbatim>\<open>group.authorize(...)\<close> call: either a source group
  (\<^verbatim>\<open>src_group=g\<close>, recorded by the group's name) or protocol, port range and address range.
\<close>

datatype ingress = SrcGroup string | Ingress string int int string

record spot_request =
  req_id :: string
  req_state :: string
  req_instance_id :: string

text \<open>What the script does to the outside world, in the order it does it.\<close>

datatype effect =
    CreateSecurityGroup string
  | Authorize string ingress
  | CancelSpotInstanceRequests "string list"
  | ListSecurityGroups
  | Revoke string ip_permission string
  | DeleteSecurityGroup string
  | Ssh string string
  | Sleep nat
  | Stdout string
  | Stderr string
  | WarnStillRunning nat

section \<open>Capacity partitioner\<close>

text \<open>
  \<^verbatim>\<open>get_partition\<close> (lines 717-721). Python 2 \<^verbatim>\<open>/\<close> and \<^verbatim>\<open>%\<close> on integers are floor
  division and its remainder, as \<open>div\<close> and \<open>mod\<close> on \<open>int\<close> are; a zero divisor
  raises.
\<close>

definition get_partition :: "int \<Rightarrow> int \<Rightarrow> int \<Rightarrow> py_exn + int" where
  "get_partition tot num_partitions current_partitions =
     (if num_partitions = 0 then Inl ZeroDivisionError
      else let num_slaves_this_zone = tot div num_partitions in
        if (tot mod num_partitions) - current_partitions > 0
        then Inr (num_slaves_this_zone + 1)
        else Inr num_slaves_this_zone)"

section \<open>Cluster discovery\<close>

text \<open>\<^verbatim>\<open>is_active\<close> (lines 166-167).\<close>

definition is_active :: "ec2_instance \<Rightarrow> bool" where
  "is_active i = (inst_state i \<in> set [''pending'', ''running'', ''stopping'', ''stopped''])"

text \<open>
  The body of the inner loop of \<^verbatim>\<open>get_existing_cluster\<close> (lines 374-382): an instance
  carrying both tags and the requested cluster name is appended to the list of its role.
\<close>

definition bucket ::
  "string \<Rightarrow> ec2_instance list \<times> ec2_instance list \<times> ec2_instance list \<Rightarrow> ec2_instance
     \<Rightarrow> ec2_instance list \<times> ec2_instance list \<times> ec2_instance list" where
  "bucket cluster_name nodes i =
     (case nodes of (master_nodes, slave_nodes, zoo_nodes) \<Rightarrow>
       (case (map_of (inst_tags i) ''cluster'', map_of (inst_tags i) ''type'') of
          (Some c, Some t) \<Rightarrow>
            if c = cluster_name then
              if t = ''master'' then (master_nodes @ [i], slave_nodes, zoo_nodes)
              else if t = ''slave'' then (master_nodes, slave_nodes @ [i], zoo_nodes)
              else if t = ''zoo'' then (master_nodes, slave_nodes, zoo_nodes @ [i])
              else nodes
            else nodes
        | _ \<Rightarrow> nodes))"

text \<open>
  One pass of the outer loop (lines 370-373): the reservation is looked at when at least
  one of its instances is active, and then every instance of the reservation is bucketed.
\<close>

definition scan_reservation ::
  "string \<Rightarrow> ec2_instance list \<times> ec2_instance list \<times> ec2_instance list \<Rightarrow> reservation
     \<Rightarrow> ec2_instance list \<times> ec2_instance list \<times> ec2_instance list" where
  "scan_reservation cluster_name nodes res =
     (let active = filter is_active (instances res) in
      if length active > 0 then foldl (bucket cluster_name) nodes (instances res)
      else nodes)"

text \<open>
  \<^verbatim>\<open>get_existing_cluster\<close> (lines 364-396) on the reservations that
  \<^verbatim>\<open>conn.get_all_instances()\<close> returned. \<^verbatim>\<open>sys.exit(1)\<close> is the exception
  \<open>SystemExit 1\<close>.
\<close>

definition get_existing_cluster ::
  "reservation list \<Rightarrow> string \<Rightarrow> bool
     \<Rightarrow> py_exn + (ec2_instance list \<times> ec2_instance list \<times> ec2_instance list)" where
  "get_existing_cluster reservations cluster_name die_on_error =
     (case foldl (scan_reservation cluster_name) ([], [], []) reservations of
        (master_nodes, slave_nodes, zoo_nodes) \<Rightarrow>
          if (master_nodes \<noteq> [] \<and> slave_nodes \<noteq> []) \<or> \<not> die_on_error
          then Inr (master_nodes, slave_nodes, zoo_nodes)
          else Inl (SystemExit 1))"

section \<open>Security group provisioner\<close>







section \<open>Instance launcher: waiting for spot requests\<close>

text \<open>
  The body of the polling loop (lines 276-283): the requests are indexed by identifier,
  a later request of the same identifier replacing an earlier one, and the instance of
  every request of this launch that is active is collected.
\<close>

definition active_instance_ids :: "spot_request list \<Rightarrow> string list \<Rightarrow> string list" where
  "active_instance_ids reqs my_req_ids =
     (let id_to_req = map_of (rev (map (\<lambda>r. (req_id r, r)) reqs)) in
      concat (map (\<lambda>i. case id_to_req i of
                           Some r \<Rightarrow> if req_state r = ''active'' then [req_instance_id r] else []
                         | None \<Rightarrow> [])
                  my_req_ids))"

text \<open>
  The handler of the bare \<^verbatim>\<open>except:\<close> (lines 294-303), on the reservations that the
  provider lists when the handler runs. It ends in \<^verbatim>\<open>sys.exit(0)\<close>.
\<close>

definition cancel_spot_requests ::
  "reservation list \<Rightarrow> string list \<Rightarrow> string \<Rightarrow> py_exn \<times> effect list" where
  "cancel_spot_requests reservations my_req_ids cluster_name =
     (case get_existing_cluster reservations cluster_name False of
        Inl e \<Rightarrow>
          (e, [Stdout ''Canceling spot instance requests'',
               CancelSpotInstanceRequests my_req_ids])
      | Inr (master_nodes, slave_nodes, zoo_nodes) \<Rightarrow>
          (let running = length master_nodes + length slave_nodes + length zoo_nodes in
           (SystemExit 0,
            [Stdout ''Canceling spot instance requests'',
             CancelSpotInstanceRequests my_req_ids]
            @ (if running \<noteq> 0 then [WarnStillRunning running] else []))))"

text \<open>
  What one turn of the polling loop meets: an interrupt (or any other exception) inside
  the \<^verbatim>\<open>try\<close>, or the provider's list of spot requests.
\<close>

datatype poll = Interrupted | Requests "spot_request list"

text \<open>
  The loop of lines 273-303 over the turns that have happened so far. The loop has no
  bound: when the turns are used up and the requests are still not all granted the
  result is \<open>None\<close>. \<open>Inr ids\<close> is the success exit with the granted instances,
  \<open>Inl e\<close> the exit through the handler.
\<close>

fun wait_for_spot_instances ::
  "poll list \<Rightarrow> reservation list \<Rightarrow> string list \<Rightarrow> opts \<Rightarrow> string
     \<Rightarrow> ((py_exn + string list) \<times> effect list) option" where
  "wait_for_spot_instances [] reservations my_req_ids opts cluster_name = None"
| "wait_for_spot_instances (Interrupted # turns) reservations my_req_ids opts cluster_name =
     (case cancel_spot_requests reservations my_req_ids cluster_name of
        (e, effects) \<Rightarrow> Some (Inl e, effects))"
| "wait_for_spot_instances (Requests reqs # turns) reservations my_req_ids opts cluster_name =
     (let ids = active_instance_ids reqs my_req_ids in
      if int (length ids) = slaves opts then Some (Inr ids, [Sleep 10])
      else (case wait_for_spot_instances turns reservations my_req_ids opts cluster_name of
              None \<Rightarrow> None
            | Some (r, effects) \<Rightarrow> Some (r, Sleep 10 # effects)))"

section \<open>Health check\<close>

text \<open>
  \<^verbatim>\<open>get_num_cpus\<close> (lines 594-615): the table, and the default with its warning on
  standard error.
\<close>

definition cpus_by_instance :: "(string \<times> int) list" where
  "cpus_by_instance =
     [(''m1.small'', 1), (''m1.large'', 2), (''m1.xlarge'', 4), (''t1.micro'', 1),
      (''c1.medium'', 2), (''c1.xlarge'', 8), (''m2.xlarge'', 2), (''m2.2xlarge'', 4),
      (''m2.4xlarge'', 8), (''cc1.4xlarge'', 8), (''cc2.8xlarge'', 16), (''cg1.4xlarge'', 8)]"

definition get_num_cpus :: "string \<Rightarrow> int \<times> effect list" where
  "get_num_cpus itype =
     (case map_of cpus_by_instance itype of
        Some n \<Rightarrow> (n, [])
      | None \<Rightarrow>
          (2, [Stderr (''WARNING: Don'' @ [CHR 0x27] @ ''t know number of cpus on instance type ''
                       @ itype @ ''; assuming 2'')]))"

text \<open>
  A JSON value as \<^verbatim>\<open>json.loads\<close> builds it; numbers are integers here (a fraction is
  outside the model). The body of a response either decodes to such a value or does not,
  in which case \<^verbatim>\<open>json.loads\<close> raises \<^verbatim>\<open>ValueError\<close>.
\<close>

datatype json =
    JNull | JBool bool | JInt int | JString string
  | JArray "json list" | JObject "(string \<times> json) list"

datatype document = Undecodable | Decoded json

definition json_loads :: "document \<Rightarrow> py_exn + json" where
  "json_loads d = (case d of Undecodable \<Rightarrow> Inl ValueError | Decoded j \<Rightarrow> Inr j)"

text \<open>
  \<^verbatim>\<open>json_data.get("cores")\<close>: a dictionary answers with the value of the key (the last
  one, if the document repeats the key) or \<^verbatim>\<open>None\<close>; a list has no such method; any
  other value has no attributes at all.
\<close>

definition json_get :: "json \<Rightarrow> string \<Rightarrow> py_exn + json option" where
  "json_get j key =
     (case j of JObject kvs \<Rightarrow> Inr (map_of (rev kvs) key) | _ \<Rightarrow> Inl AttributeError)"

text \<open>
  Python's \<^verbatim>\<open>int(...)\<close> of a string: optional surrounding white space, an optional
  sign, then at least one decimal digit.
\<close>

definition is_digit :: "char \<Rightarrow> bool" where
  "is_digit c = (c \<in> set ''0123456789'')"

definition digit_val :: "char \<Rightarrow> int" where
  "digit_val c = int (of_char c) - 48"

definition is_space :: "char \<Rightarrow> bool" where
  "is_space c = (c \<in> set [CHR '' '', CHR 0x09, CHR 0x0A, CHR 0x0B, CHR 0x0C, CHR 0x0D])"

definition strip :: "string \<Rightarrow> string" where
  "strip s = rev (dropWhile is_space (rev (dropWhile is_space s)))"

definition digits_val :: "string \<Rightarrow> py_exn + int" where
  "digits_val ds =
     (if ds \<noteq> [] \<and> list_all is_digit ds
      then Inr (foldl (\<lambda>n c. 10 * n + digit_val c) 0 ds)
      else Inl ValueError)"

definition int_of_literal :: "string \<Rightarrow> py_exn + int" where
  "int_of_literal s =
     (case strip s of
        c # ds \<Rightarrow>
          if c = CHR ''-'' then (case digits_val ds of Inl e \<Rightarrow> Inl e | Inr n \<Rightarrow> Inr (- n))
          else if c = CHR ''+'' then digits_val ds
          else digits_val (c # ds)
      | [] \<Rightarrow> Inl ValueError)"

definition py_int :: "json option \<Rightarrow> py_exn + int" where
  "py_int v =
     (case v of
        None \<Rightarrow> Inl TypeError
      | Some JNull \<Rightarrow> Inl TypeError
      | Some (JBool b) \<Rightarrow> Inr (if b then 1 else 0)
      | Some (JInt n) \<Rightarrow> Inr n
      | Some (JString s) \<Rightarrow> int_of_literal s
      | Some (JArray _) \<Rightarrow> Inl TypeError
      | Some (JObject _) \<Rightarrow> Inl TypeError)"

text \<open>The expected capacity of lines 437-438.\<close>

definition expected_num_cpus :: "opts \<Rightarrow> int" where
  "expected_num_cpus opts = fst (get_num_cpus (instance_type opts)) * slaves opts"

text \<open>\<^verbatim>\<open>check_spark_json\<close> (lines 431-447).\<close>

definition check_spark_json :: "document \<Rightarrow> opts \<Rightarrow> py_exn + int" where
  "check_spark_json spark_json opts =
     (case json_loads spark_json of
        Inl e \<Rightarrow> Inl e
      | Inr json_data \<Rightarrow>
          (case json_get json_data ''cores'' of
             Inl e \<Rightarrow> Inl e
           | Inr v \<Rightarrow>
               (case py_int v of
                  Inl e \<Rightarrow> Inl e
                | Inr got_num_cpus \<Rightarrow>
                    if got_num_cpus = expected_num_cpus opts then Inr 0 else Inr (- 1))))"

text \<open>
  What \<^verbatim>\<open>urllib2.urlopen\<close> gives: an exception, or a response with its status code and
  body.
\<close>

record http_response =
  code :: int
  body :: document

text \<open>
  \<^verbatim>\<open>check_spark_cluster\<close> (lines 449-462). \<^verbatim>\<open>master_nodes[0]\<close> is read before the
  \<^verbatim>\<open>try\<close>; the handler is \<^verbatim>\<open>except NameError\<close>, so only that exception becomes \<open>-1\<close>.
\<close>

definition check_spark_cluster ::
  "(string \<Rightarrow> py_exn + http_response) \<Rightarrow> ec2_instance list \<Rightarrow> opts \<Rightarrow> py_exn + int" where
  "check_spark_cluster urlopen master_nodes opts =
     (case master_nodes of
        [] \<Rightarrow> Inl IndexError
      | m # _ \<Rightarrow>
          (let url = ''http://'' @ public_dns_name m @ '':8080/json'';
               attempt = (case urlopen url of
                            Inl e \<Rightarrow> Inl e
                          | Inr response \<Rightarrow>
                              if code response \<noteq> 200 then Inr (- 1)
                              else check_spark_json (body response) opts)
           in case attempt of
                Inl e \<Rightarrow> if e = NameError then Inr (- 1) else Inl e
              | Inr r \<Rightarrow> Inr r))"

text \<open>
  The world as the health loop meets it: what the status endpoint answers to the
  \<open>k\<close>-th check, and whether the stop and the start command of the \<open>k\<close>-th restart
  cycle run through (\<^verbatim>\<open>ssh\<close> raises \<^verbatim>\<open>CalledProcessError\<close> when its own retries are
  used up).
\<close>

record world =
  urlopen_at :: "nat \<Rightarrow> string \<Rightarrow> py_exn + http_response"
  ssh_at :: "nat \<Rightarrow> string \<Rightarrow> py_exn + int"

text \<open>
  The loop of \<^verbatim>\<open>wait_for_spark_cluster\<close> (lines 727-733), with the commands it has sent.
\<close>

function restart_loop ::
  "world \<Rightarrow> ec2_instance list \<Rightarrow> opts \<Rightarrow> string \<Rightarrow> int \<Rightarrow> nat
     \<Rightarrow> (py_exn + int) \<times> effect list" where
  "restart_loop w master_nodes opts master err count =
     (if err \<noteq> 0 \<and> count < 10 then
        (case ssh_at w count ''/root/spark/bin/stop-all.sh'' of
           Inl e \<Rightarrow> (Inl e, [Ssh master ''/root/spark/bin/stop-all.sh''])
         | Inr _ \<Rightarrow>
             (case ssh_at w count ''/root/spark/bin/start-all.sh'' of
                Inl e \<Rightarrow> (Inl e, [Ssh master ''/root/spark/bin/stop-all.sh'',
                                   Ssh master ''/root/spark/bin/start-all.sh''])
              | Inr _ \<Rightarrow>
                  (case check_spark_cluster (urlopen_at w (Suc count)) master_nodes opts of
                     Inl e \<Rightarrow> (Inl e, [Ssh master ''/root/spark/bin/stop-all.sh'',
                                        Ssh master ''/root/spark/bin/start-all.sh'', Sleep 5])
                   | Inr err' \<Rightarrow>
                       (case restart_loop w master_nodes opts master err' (Suc count) of
                          (r, effects) \<Rightarrow>
                            (r, [Ssh master ''/root/spark/bin/stop-all.sh'',
                                 Ssh master ''/root/spark/bin/start-all.sh'', Sleep 5]
                                @ effects)))))
      else (Inr err, []))"
  by pat_completeness auto
termination
  by (relation "measure (\<lambda>(w, master_nodes, opts, master, err, count). 10 - count)") auto

declare restart_loop.simps [simp del]

text \<open>\<^verbatim>\<open>wait_for_spark_cluster\<close> (lines 723-734).\<close>

definition wait_for_spark_cluster ::
  "world \<Rightarrow> ec2_instance list \<Rightarrow> opts \<Rightarrow> (py_exn + int) \<times> effect list" where
  "wait_for_spark_cluster w master_nodes opts =
     (case check_spark_cluster (urlopen_at w 0) master_nodes opts of
        Inl e \<Rightarrow> (Inl e, [])
      | Inr err \<Rightarrow>
          (case master_nodes of
             [] \<Rightarrow> (Inl IndexError, [])
           | m # _ \<Rightarrow> restart_loop w master_nodes opts (public_dns_name m) err 0))"


text \<open>
  The restart cycles in a list of effects: each cycle starts with the stop command.
\<close>

definition restart_cycles :: "effect list \<Rightarrow> nat" where
  "restart_cycles effects =
     length (filter (\<lambda>e. case e of Ssh host command \<Rightarrow> command = ''/root/spark/bin/stop-all.sh''
                                   | _ \<Rightarrow> False) effects)"

section \<open>Deployment templater\<close>

text \<open>
  Python's \<^verbatim>\<open>text.replace(old, new)\<close>: the text is read from the left, and wherever
  \<open>old\<close> starts it is replaced and reading goes on behind it. An empty \<open>old\<close> matches
  before every character and at the end.
\<close>

function replace_from :: "string \<Rightarrow> string \<Rightarrow> string \<Rightarrow> string" where
  "replace_from old new [] = []"
| "replace_from old new (c # cs) =
     (if old \<noteq> [] \<and> prefix old (c # cs)
      then new @ replace_from old new (drop (length old) (c # cs))
      else c # replace_from old new cs)"
  by pat_completeness auto
termination
  by (relation "measure (\<lambda>(old, new, text). length text)") auto

definition str_replace :: "string \<Rightarrow> string \<Rightarrow> string \<Rightarrow> string" where
  "str_replace text old new =
     (if old = [] then new @ concat (map (\<lambda>c. c # new) text)
      else replace_from old new text)"

definition placeholder :: "string \<Rightarrow> string" where
  "placeholder key = ''{{'' @ key @ ''}}''"

text \<open>
  The substitution loop of lines 672-674. \<open>template_vars\<close> lists the dictionary in the
  order in which Python iterates over it; every key occurs once.
\<close>

definition render_text :: "(string \<times> string) list \<Rightarrow> string \<Rightarrow> string" where
  "render_text template_vars text =
     foldl (\<lambda>text (key, val). str_replace text (placeholder key) val) text template_vars"

text \<open>\<^verbatim>\<open>os.path.join\<close> of two components, and \<^verbatim>\<open>path.find(sub) != -1\<close>.\<close>

definition os_path_join :: "string \<Rightarrow> string \<Rightarrow> string" where
  "os_path_join a b =
     (if b \<noteq> [] \<and> hd b = CHR ''/'' then b
      else if a = [] \<or> last a = CHR ''/'' then a @ b
      else a @ ''/'' @ b)"

fun str_contains :: "string \<Rightarrow> string \<Rightarrow> bool" where
  "str_contains [] sub = (sub = [])"
| "str_contains (c # cs) sub = (prefix sub (c # cs) \<or> str_contains cs sub)"

text \<open>
  The file filter of line 667; the first and the last character of an empty name do not
  exist.
\<close>

definition deployable :: "string \<Rightarrow> py_exn + bool" where
  "deployable filename =
     (case filename of
        [] \<Rightarrow> Inl IndexError
      | c # _ \<Rightarrow> Inr (c \<notin> set ''#.~'' \<and> last filename \<noteq> CHR ''~''))"

text \<open>
  The files of one directory (lines 666-675): each deployable file is rendered and written
  below the scratch directory. A file is a name with its content.
\<close>

fun render_files ::
  "(string \<times> string) list \<Rightarrow> string \<Rightarrow> string \<Rightarrow> (string \<times> string) list
     \<Rightarrow> py_exn + (string \<times> string) list" where
  "render_files template_vars tmp_dir dest_dir [] = Inr []"
| "render_files template_vars tmp_dir dest_dir ((filename, text) # files) =
     (case deployable filename of
        Inl e \<Rightarrow> Inl e
      | Inr ok \<Rightarrow>
          (case render_files template_vars tmp_dir dest_dir files of
             Inl e \<Rightarrow> Inl e
           | Inr written \<Rightarrow>
               if ok
               then Inr ((tmp_dir @ os_path_join dest_dir filename,
                          render_text template_vars text) # written)
               else Inr written))"

text \<open>
  The walk of lines 660-675 over what \<^verbatim>\<open>os.walk(root_dir)\<close> yields: each directory
  path with its files.
\<close>

fun render_tree ::
  "(string \<times> string) list \<Rightarrow> string \<Rightarrow> string \<Rightarrow> (string \<times> (string \<times> string) list) list
     \<Rightarrow> py_exn + (string \<times> string) list" where
  "render_tree template_vars tmp_dir root_dir [] = Inr []"
| "render_tree template_vars tmp_dir root_dir ((path, files) # walk) =
     (if \<not> str_contains path ''.svn'' then
        (case render_files template_vars tmp_dir
                (os_path_join ''/'' (drop (length root_dir) path)) files of
           Inl e \<Rightarrow> Inl e
         | Inr written \<Rightarrow>
             (case render_tree template_vars tmp_dir root_dir walk of
                Inl e \<Rightarrow> Inl e
              | Inr rest \<Rightarrow> Inr (written @ rest)))
      else render_tree template_vars tmp_dir root_dir walk)"

text \<open>
  The local disk as \<^verbatim>\<open>deploy_files\<close> sees it: the scratch directories that exist, and
  what the lead node has received.
\<close>

record disk =
  scratch_dirs :: "string set"
  pushed :: "(string \<times> string) list"

text \<open>
  The second half of \<^verbatim>\<open>deploy_files\<close> (lines 659-682): \<^verbatim>\<open>mkdtemp\<close> creates
  \<open>tmp_dir\<close>, the tree is rendered into it, \<^verbatim>\<open>subprocess.check_call\<close> runs the transfer
  and raises \<^verbatim>\<open>CalledProcessError\<close> on a non-zero exit status, and \<^verbatim>\<open>shutil.rmtree\<close>
  is the statement after it.
\<close>

definition deploy_files ::
  "disk \<Rightarrow> string \<Rightarrow> string \<Rightarrow> (string \<times> (string \<times> string) list) list
     \<Rightarrow> (string \<times> string) list \<Rightarrow> int \<Rightarrow> (py_exn + unit) \<times> disk" where
  "deploy_files d tmp_dir root_dir walk template_vars rsync_status =
     (let d1 = d\<lparr>scratch_dirs := insert tmp_dir (scratch_dirs d)\<rparr> in
      case render_tree template_vars tmp_dir root_dir walk of
        Inl e \<Rightarrow> (Inl e, d1)
      | Inr written \<Rightarrow>
          if rsync_status \<noteq> 0 then (Inl CalledProcessError, d1)
          else (Inr (), d1\<lparr>scratch_dirs := scratch_dirs d1 - {tmp_dir}, pushed := written\<rparr>))"










section \<open>Teardown: deleting the security groups\<close>











text \<open>The attempts in a list of effects: each attempt lists the groups once.\<close>

definition attempts :: "effect list \<Rightarrow> nat" where
  "attempts effects = length (filter (\<lambda>e. e = ListSecurityGroups) effects)"

section \<open>The partition sums to the total\<close>

lemma get_partition_Inr:
  "z \<noteq> 0 \<Longrightarrow> get_partition tot z i =
     Inr (tot div z + (if i < tot mod z then 1 else 0))"
  by (simp add: get_partition_def Let_def)

lemma sum_indicator_below:
  assumes "0 \<le> r" "r \<le> z"
  shows "(\<Sum>i = 0..<z. if i < r then 1 else 0) = (r::int)"
proof -
  have "(\<Sum>i = 0..<z. if i < r then 1 else 0)
        = (\<Sum>i \<in> {0..<z} \<inter> {i. i < r}. (1::int)) + (\<Sum>i \<in> {0..<z} \<inter> - {i. i < r}. 0)"
    by (rule sum.If_cases) simp
  also have "{0..<z} \<inter> {i. i < r} = {0..<r}" using assms by auto
  finally show ?thesis using assms by simp
qed

text \<open>
  C1. For every total \<open>\<ge> 0\<close> and every zone count \<open>\<ge> 1\<close>, \<^verbatim>\<open>get_partition\<close> returns a
  count for every zone index, and the counts of the zone indices \<open>0, \<dots>, zoneCount - 1\<close>
  add up to the total; \<^verbatim>\<open>get_partition(5, 3, i)\<close> is 2, 2 and 1 for \<open>i\<close> = 0, 1, 2.
\<close>

theorem get_partition_sum:
  assumes "0 \<le> tot" "1 \<le> zoneCount"
  shows "(\<forall>i. \<exists>c. get_partition tot zoneCount i = Inr c) \<and>
         (\<Sum>i = 0..<zoneCount. projr (get_partition tot zoneCount i)) = tot \<and>
         get_partition 5 3 0 = Inr 2 \<and> get_partition 5 3 1 = Inr 2 \<and> get_partition 5 3 2 = Inr 1"
proof -
  have z: "zoneCount \<noteq> 0" using assms by simp
  have r: "0 \<le> tot mod zoneCount" "tot mod zoneCount \<le> zoneCount"
    using assms by (simp_all add: less_imp_le)
  have "(\<Sum>i = 0..<zoneCount. projr (get_partition tot zoneCount i))
        = (\<Sum>i = 0..<zoneCount. tot div zoneCount + (if i < tot mod zoneCount then 1 else 0))"
    by (simp add: get_partition_Inr [OF z])
  also have "\<dots> = zoneCount * (tot div zoneCount) + tot mod zoneCount"
    using assms by (simp add: sum.distrib sum_indicator_below [OF r])
  also have "\<dots> = tot" by simp
  finally have s: "(\<Sum>i = 0..<zoneCount. projr (get_partition tot zoneCount i)) = tot" .
  have e: "\<forall>i. \<exists>c. get_partition tot zoneCount i = Inr c"
    by (simp add: get_partition_Inr [OF z])
  show ?thesis using s e by (simp add: get_partition_def)
qed

theorem get_partition_sum_witness:
  "(0::int) \<le> 7 \<and> (1::int) \<le> 3 \<and> (\<Sum>i = 0..<3. projr (get_partition 7 3 i)) = 7"
  using get_partition_sum [of 7 3] by simp


section \<open>Authorization happens exactly on an empty rule set\<close>










section \<open>The health loop is bounded\<close>

lemma restart_cycles_simps [simp]:
  "restart_cycles [] = 0"
  "restart_cycles (Ssh h ''/root/spark/bin/stop-all.sh'' # es) = Suc (restart_cycles es)"
  "restart_cycles (Ssh h ''/root/spark/bin/start-all.sh'' # es) = restart_cycles es"
  "restart_cycles (Sleep n # es) = restart_cycles es"
  by (simp_all add: restart_cycles_def)

lemma check_spark_json_values:
  "check_spark_json d opts = Inr e \<Longrightarrow> e = 0 \<or> e = - 1"
  by (auto simp: check_spark_json_def split: sum.splits if_splits)

lemma check_spark_cluster_values:
  "check_spark_cluster u master_nodes opts = Inr e \<Longrightarrow> e = 0 \<or> e = - 1"
  by (auto simp: check_spark_cluster_def Let_def split: list.splits sum.splits if_splits
           dest: check_spark_json_values)

lemma restart_loop_cycles:
  "restart_cycles (snd (restart_loop w master_nodes opts master err count)) \<le> 10 - count"
proof (induction w master_nodes opts master err count rule: restart_loop.induct)
  case (1 w master_nodes opts master err count)
  show ?case
  proof (cases "err \<noteq> 0 \<and> count < 10")
    case False
    then show ?thesis by (subst restart_loop.simps) auto
  next
    case True
    show ?thesis
    proof (cases "ssh_at w count ''/root/spark/bin/stop-all.sh''")
      case (Inl e)
      with True show ?thesis by (subst restart_loop.simps) auto
    next
      case stop: (Inr a)
      show ?thesis
      proof (cases "ssh_at w count ''/root/spark/bin/start-all.sh''")
        case (Inl e)
        with True stop show ?thesis by (subst restart_loop.simps) auto
      next
        case start: (Inr b)
        show ?thesis
        proof (cases "check_spark_cluster (urlopen_at w (Suc count)) master_nodes opts")
          case (Inl e)
          with True stop start show ?thesis by (subst restart_loop.simps) auto
        next
          case chk: (Inr err')
          have "restart_cycles (snd (restart_loop w master_nodes opts master err' (Suc count)))
                  \<le> 10 - Suc count"
            using "1.IH" True stop start chk by simp
          with True stop start chk show ?thesis
            by (subst restart_loop.simps) (auto split: prod.splits)
        qed
      qed
    qed
  qed
qed

lemma restart_loop_exhausted:
  assumes checks: "\<forall>k \<le> 10. \<exists>e. check_spark_cluster (urlopen_at w k) master_nodes opts = Inr e \<and> e \<noteq> 0"
      and sshs: "\<forall>k c. k < 10 \<longrightarrow> (\<exists>rc. ssh_at w k c = Inr rc)"
  shows "err = - 1 \<Longrightarrow> count + n = 10 \<Longrightarrow>
         \<exists>effects. restart_loop w master_nodes opts master err count = (Inr (- 1), effects)
                    \<and> restart_cycles effects = n"
proof (induction n arbitrary: err count)
  case 0
  then have "restart_loop w master_nodes opts master err count = (Inr err, [])"
    by (subst restart_loop.simps) simp
  with 0 show ?case by simp
next
  case (Suc n)
  then have lt: "count < 10" by simp
  obtain a where stop: "ssh_at w count ''/root/spark/bin/stop-all.sh'' = Inr a"
    using sshs lt by blast
  obtain b where start: "ssh_at w count ''/root/spark/bin/start-all.sh'' = Inr b"
    using sshs lt by blast
  obtain e where chk: "check_spark_cluster (urlopen_at w (Suc count)) master_nodes opts = Inr e"
    and "e \<noteq> 0"
    using checks lt by (metis Suc_leI)
  then have e: "e = - 1" using check_spark_cluster_values by blast
  have unfold: "restart_loop w master_nodes opts master err count =
      (case restart_loop w master_nodes opts master e (Suc count) of
         (r, effects) \<Rightarrow> (r, [Ssh master ''/root/spark/bin/stop-all.sh'',
                               Ssh master ''/root/spark/bin/start-all.sh'', Sleep 5] @ effects))"
    using lt \<open>err = - 1\<close> stop start chk by (subst restart_loop.simps) simp
  from Suc.IH [OF e, of "Suc count"] Suc.prems
  obtain effects where
    "restart_loop w master_nodes opts master e (Suc count) = (Inr (- 1), effects)"
    "restart_cycles effects = n"
    by auto
  with unfold show ?case by simp
qed

text \<open>
  C5. \<^verbatim>\<open>wait_for_spark_cluster\<close> starts at most 10 restart cycles, whatever the status
  endpoint and the remote commands answer. When the budget is used up, that is when the
  first check and the check of each of the 10 cycles return an error code and the
  commands run through, it returns the failure value \<open>-1\<close> to its caller after exactly 10
  cycles, and does not raise.
\<close>

theorem wait_for_spark_cluster_bounded:
  "restart_cycles (snd (wait_for_spark_cluster w master_nodes opts)) \<le> 10 \<and>
   ((\<forall>k \<le> 10. \<exists>e. check_spark_cluster (urlopen_at w k) master_nodes opts = Inr e \<and> e \<noteq> 0) \<and>
    (\<forall>k c. k < 10 \<longrightarrow> (\<exists>rc. ssh_at w k c = Inr rc))
    \<longrightarrow> fst (wait_for_spark_cluster w master_nodes opts) = Inr (- 1)
        \<and> restart_cycles (snd (wait_for_spark_cluster w master_nodes opts)) = 10)"
proof (intro conjI impI)
  show "restart_cycles (snd (wait_for_spark_cluster w master_nodes opts)) \<le> 10"
    using restart_loop_cycles [of w master_nodes opts _ _ 0]
    by (auto simp: wait_for_spark_cluster_def split: sum.splits list.splits)
next
  assume h: "(\<forall>k \<le> 10. \<exists>e. check_spark_cluster (urlopen_at w k) master_nodes opts = Inr e \<and> e \<noteq> 0) \<and>
    (\<forall>k c. k < 10 \<longrightarrow> (\<exists>rc. ssh_at w k c = Inr rc))"
  then obtain err where first: "check_spark_cluster (urlopen_at w 0) master_nodes opts = Inr err"
    and "err \<noteq> 0" by (metis le0)
  then have err: "err = - 1" using check_spark_cluster_values by blast
  from first obtain m ms where mn: "master_nodes = m # ms"
    by (cases master_nodes) (auto simp: check_spark_cluster_def)
  from restart_loop_exhausted [of w master_nodes opts err 0 10 "public_dns_name m"] h err
  obtain effects where
        run: "restart_loop w master_nodes opts (public_dns_name m) err 0 = (Inr (- 1), effects)"
    and cyc: "restart_cycles effects = 10"
    by auto
  have w: "wait_for_spark_cluster w master_nodes opts = (Inr (- 1), effects)"
    using first mn run by (simp add: wait_for_spark_cluster_def)
  show "fst (wait_for_spark_cluster w master_nodes opts) = Inr (- 1)" using w by simp
  show "restart_cycles (snd (wait_for_spark_cluster w master_nodes opts)) = 10"
    using w cyc by simp
qed

theorem wait_for_spark_cluster_bounded_witness:
  "fst (wait_for_spark_cluster
          \<lparr>urlopen_at = (\<lambda>k url. Inr \<lparr>code = 200, body = Decoded (JObject [(''cores'', JInt 0)])\<rparr>),
           ssh_at = (\<lambda>k command. Inr 0)\<rparr>
          [\<lparr>inst_id = ''i-1'', inst_state = ''running'', inst_tags = [], public_dns_name = ''master''\<rparr>]
          \<lparr>instance_type = ''m1.large'', slaves = 2, ganglia = False\<rparr>) = Inr (- 1)
   \<and> restart_cycles (snd (wait_for_spark_cluster
          \<lparr>urlopen_at = (\<lambda>k url. Inr \<lparr>code = 200, body = Decoded (JObject [(''cores'', JInt 0)])\<rparr>),
           ssh_at = (\<lambda>k command. Inr 0)\<rparr>
          [\<lparr>inst_id = ''i-1'', inst_state = ''running'', inst_tags = [], public_dns_name = ''master''\<rparr>]
          \<lparr>instance_type = ''m1.large'', slaves = 2, ganglia = False\<rparr>)) = 10"
proof -
  have chk: "\<And>k. check_spark_cluster
          (urlopen_at \<lparr>urlopen_at = (\<lambda>k url. Inr \<lparr>code = 200, body = Decoded (JObject [(''cores'', JInt 0)])\<rparr>),
           ssh_at = (\<lambda>k command. Inr 0)\<rparr> k)
          [\<lparr>inst_id = ''i-1'', inst_state = ''running'', inst_tags = [], public_dns_name = ''master''\<rparr>]
          \<lparr>instance_type = ''m1.large'', slaves = 2, ganglia = False\<rparr> = Inr (- 1)"
    by (simp add: check_spark_cluster_def check_spark_json_def json_loads_def json_get_def
          py_int_def expected_num_cpus_def get_num_cpus_def cpus_by_instance_def)
  show ?thesis
    using wait_for_spark_cluster_bounded
      [of "\<lparr>urlopen_at = (\<lambda>k url. Inr \<lparr>code = 200, body = Decoded (JObject [(''cores'', JInt 0)])\<rparr>),
           ssh_at = (\<lambda>k command. Inr 0)\<rparr>"
          "[\<lparr>inst_id = ''i-1'', inst_state = ''running'', inst_tags = [], public_dns_name = ''master''\<rparr>]"
          "\<lparr>instance_type = ''m1.large'', slaves = 2, ganglia = False\<rparr>"]
      chk
    by simp
qed



section \<open>Discovery and the lifecycle state\<close>

text \<open>
  C2. Discovery is claimed to return active nodes only. \<^verbatim>\<open>get_existing_cluster\<close> tests
  \<^verbatim>\<open>is_active\<close> to decide whether a reservation is looked at, and then buckets every
  instance of the reservation: a terminated instance that shares its reservation with a
  running one is returned among the slaves.
\<close>

theorem get_existing_cluster_returns_terminated:
  "get_existing_cluster
     [\<lparr>instances =
        [\<lparr>inst_id = ''i-1'', inst_state = ''running'',
          inst_tags = [(''cluster'', ''demo''), (''type'', ''slave'')],
          public_dns_name = ''a.example''\<rparr>,
         \<lparr>inst_id = ''i-2'', inst_state = ''terminated'',
          inst_tags = [(''cluster'', ''demo''), (''type'', ''slave'')],
          public_dns_name = ''b.example''\<rparr>]\<rparr>]
     ''demo'' False
   = Inr ([],
          [\<lparr>inst_id = ''i-1'', inst_state = ''running'',
            inst_tags = [(''cluster'', ''demo''), (''type'', ''slave'')],
            public_dns_name = ''a.example''\<rparr>,
           \<lparr>inst_id = ''i-2'', inst_state = ''terminated'',
            inst_tags = [(''cluster'', ''demo''), (''type'', ''slave'')],
            public_dns_name = ''b.example''\<rparr>],
          [])
   \<and> \<not> is_active \<lparr>inst_id = ''i-2'', inst_state = ''terminated'',
                     inst_tags = [(''cluster'', ''demo''), (''type'', ''slave'')],
                     public_dns_name = ''b.example''\<rparr>"
  by (simp add: get_existing_cluster_def scan_reservation_def bucket_def is_active_def)

section \<open>The health check on a bad answer\<close>

text \<open>A response with another status code than 200 does give \<open>-1\<close>.\<close>

lemma check_spark_cluster_not_200:
  "code response \<noteq> 200 \<Longrightarrow>
     check_spark_cluster (\<lambda>url. Inr response) (m # ms) opts = Inr (- 1)"
  by (simp add: check_spark_cluster_def)

text \<open>
  C9. The health check is claimed to return \<open>-1\<close>, without raising, on every answer
  that is not a 200 response with a JSON document and a numeric \<^verbatim>\<open>cores\<close> field. The
  handler of \<^verbatim>\<open>check_spark_cluster\<close> catches \<^verbatim>\<open>NameError\<close> only: on a 200 response
  whose body is not JSON the \<^verbatim>\<open>ValueError\<close> of \<^verbatim>\<open>json.loads\<close> leaves the function, and
  on a JSON object without \<^verbatim>\<open>cores\<close> the \<^verbatim>\<open>TypeError\<close> of \<^verbatim>\<open>int(None)\<close> does.
\<close>

theorem check_spark_cluster_raises:
  "check_spark_cluster (\<lambda>url. Inr \<lparr>code = 200, body = Undecodable\<rparr>)
     [\<lparr>inst_id = ''i-1'', inst_state = ''running'', inst_tags = [],
       public_dns_name = ''master.example''\<rparr>]
     \<lparr>instance_type = ''m1.large'', slaves = 2, ganglia = False\<rparr> = Inl ValueError
   \<and> check_spark_cluster (\<lambda>url. Inr \<lparr>code = 200, body = Decoded (JObject [])\<rparr>)
     [\<lparr>inst_id = ''i-1'', inst_state = ''running'', inst_tags = [],
       public_dns_name = ''master.example''\<rparr>]
     \<lparr>instance_type = ''m1.large'', slaves = 2, ganglia = False\<rparr> = Inl TypeError"
  by (simp add: check_spark_cluster_def check_spark_json_def json_loads_def json_get_def
        py_int_def)

section \<open>Unknown instance types count two cores\<close>

text \<open>
  C10. For an instance type that is not in the CPU table, \<^verbatim>\<open>get_num_cpus\<close> returns 2 and
  prints its warning, and raises nothing; the capacity that \<^verbatim>\<open>check_spark_json\<close> expects
  is then twice the number of slaves, and that is what the \<^verbatim>\<open>cores\<close> field of the status
  document is compared with.
\<close>

theorem unknown_instance_type_two_cores:
  assumes "itype \<notin> set (map fst cpus_by_instance)" "instance_type opts = itype"
  shows "get_num_cpus itype =
           (2, [Stderr (''WARNING: Don'' @ [CHR 0x27] @ ''t know number of cpus on instance type ''
                       @ itype @ ''; assuming 2'')])
       \<and> expected_num_cpus opts = 2 * slaves opts
       \<and> check_spark_json (Decoded (JObject [(''cores'', JInt n)])) opts
           = Inr (if n = 2 * slaves opts then 0 else - 1)"
proof -
  have "map_of cpus_by_instance itype = None"
    using assms(1) by (simp add: map_of_eq_None_iff)
  then have g: "get_num_cpus itype =
           (2, [Stderr (''WARNING: Don'' @ [CHR 0x27] @ ''t know number of cpus on instance type ''
                       @ itype @ ''; assuming 2'')])"
    by (simp add: get_num_cpus_def)
  then have e: "expected_num_cpus opts = 2 * slaves opts"
    using assms(2) by (simp add: expected_num_cpus_def)
  show ?thesis using g e
    by (simp add: check_spark_json_def json_loads_def json_get_def py_int_def)
qed

theorem unknown_instance_type_two_cores_witness:
  "''m1.medium'' \<notin> set (map fst cpus_by_instance) \<and>
   expected_num_cpus \<lparr>instance_type = ''m1.medium'', slaves = 5, ganglia = False\<rparr> = 10 \<and>
   check_spark_json (Decoded (JObject [(''cores'', JInt 10)]))
     \<lparr>instance_type = ''m1.medium'', slaves = 5, ganglia = False\<rparr> = Inr 0"
  using unknown_instance_type_two_cores
    [of "''m1.medium''" "\<lparr>instance_type = ''m1.medium'', slaves = 5, ganglia = False\<rparr>" 10]
  by (simp add: cpus_by_instance_def)

section \<open>Interrupting the wait for spot instances\<close>

text \<open>
  Whenever the interrupt comes, the handler cancels the requests of the launch once and
  ends in \<^verbatim>\<open>sys.exit(0)\<close>.
\<close>

lemma cancel_spot_requests_effects:
  "\<exists>warning. cancel_spot_requests reservations my_req_ids cluster_name =
     (SystemExit 0,
      [Stdout ''Canceling spot instance requests'', CancelSpotInstanceRequests my_req_ids]
      @ warning)
     \<and> (\<forall>e \<in> set warning. \<exists>n. e = WarnStillRunning n)"
  by (auto simp: cancel_spot_requests_def get_existing_cluster_def Let_def split: prod.splits)

lemma interrupted_wait_cancels_once:
  assumes "\<forall>reqs \<in> set polls. int (length (active_instance_ids reqs my_req_ids)) \<noteq> slaves opts"
  shows "\<exists>effects. wait_for_spot_instances (map Requests polls @ Interrupted # turns)
                      reservations my_req_ids opts cluster_name
                    = Some (Inl (SystemExit 0), effects)
                 \<and> filter (\<lambda>e. \<exists>ids. e = CancelSpotInstanceRequests ids) effects
                   = [CancelSpotInstanceRequests my_req_ids]"
  using assms
proof (induction polls)
  case Nil
  obtain warning where
    c: "cancel_spot_requests reservations my_req_ids cluster_name =
     (SystemExit 0,
      [Stdout ''Canceling spot instance requests'', CancelSpotInstanceRequests my_req_ids]
      @ warning)"
    and w: "\<forall>e \<in> set warning. \<exists>n. e = WarnStillRunning n"
    using cancel_spot_requests_effects by blast
  have "filter (\<lambda>e. \<exists>ids. e = CancelSpotInstanceRequests ids) warning = []"
    using w by (auto simp: filter_empty_conv)
  with c show ?case by simp
next
  case (Cons reqs polls)
  then obtain effects where
    "wait_for_spot_instances (map Requests polls @ Interrupted # turns)
        reservations my_req_ids opts cluster_name = Some (Inl (SystemExit 0), effects)"
    "filter (\<lambda>e. \<exists>ids. e = CancelSpotInstanceRequests ids) effects
       = [CancelSpotInstanceRequests my_req_ids]"
    by auto
  with Cons.prems show ?case by (simp add: Let_def)
qed

text \<open>
  C4. On an interrupt of the polling loop the handler is claimed to cancel the requests
  of the batch once, to report the number of instances already granted as a warning, and
  to exit without raising. Here one of two requests has been granted instance
  \<^verbatim>\<open>i-9\<close> when the interrupt comes. The handler cancels both requests once and exits
  with status 0, but prints no warning: it counts the instances that discovery finds
  under the cluster's tags, and the launcher tags its instances only after the wait.
\<close>

theorem interrupted_wait_reports_nothing:
  "wait_for_spot_instances
     [Requests [\<lparr>req_id = ''sir-1'', req_state = ''active'', req_instance_id = ''i-9''\<rparr>,
                \<lparr>req_id = ''sir-2'', req_state = ''open'', req_instance_id = []\<rparr>],
      Interrupted]
     [\<lparr>instances = [\<lparr>inst_id = ''i-9'', inst_state = ''running'', inst_tags = [],
                      public_dns_name = ''a.example''\<rparr>]\<rparr>]
     [''sir-1'', ''sir-2'']
     \<lparr>instance_type = ''m1.large'', slaves = 2, ganglia = False\<rparr> ''demo''
   = Some (Inl (SystemExit 0),
           [Sleep 10, Stdout ''Canceling spot instance requests'',
            CancelSpotInstanceRequests [''sir-1'', ''sir-2'']])
   \<and> active_instance_ids
       [\<lparr>req_id = ''sir-1'', req_state = ''active'', req_instance_id = ''i-9''\<rparr>,
        \<lparr>req_id = ''sir-2'', req_state = ''open'', req_instance_id = []\<rparr>]
       [''sir-1'', ''sir-2''] = [''i-9'']"
  by (simp add: cancel_spot_requests_def active_instance_ids_def get_existing_cluster_def
        scan_reservation_def bucket_def is_active_def)

section \<open>The scratch directory after the transfer\<close>

text \<open>
  C7, as claimed: the scratch directory is removed in every execution of the deployment
  step. It is not: when the transfer exits with status 1, the directory is still there.
\<close>

theorem scratch_dir_left_behind:
  "''/tmp/tmpAB'' \<in> scratch_dirs (snd (deploy_files \<lparr>scratch_dirs = {}, pushed = []\<rparr>
      ''/tmp/tmpAB'' ''deploy.generic''
      [(''deploy.generic/root'', [(''vars.sh'', ''M={{active_master}}'')])]
      [(''active_master'', ''a.example'')] 1))"
  by (simp add: deploy_files_def deployable_def)

text \<open>
  C7, amended. When the tree has been rendered: if the transfer succeeds, the deployment
  step returns, the lead node has received the rendered files and the scratch directory
  is removed; if the transfer fails, the step raises \<^verbatim>\<open>CalledProcessError\<close> and the
  scratch directory stays.
\<close>

theorem deploy_files_cleanup:
  assumes "render_tree template_vars tmp_dir root_dir walk = Inr written"
  shows "(rsync_status = 0 \<longrightarrow>
            fst (deploy_files d tmp_dir root_dir walk template_vars rsync_status) = Inr () \<and>
            tmp_dir \<notin> scratch_dirs
              (snd (deploy_files d tmp_dir root_dir walk template_vars rsync_status)) \<and>
            pushed (snd (deploy_files d tmp_dir root_dir walk template_vars rsync_status))
              = written)
       \<and> (rsync_status \<noteq> 0 \<longrightarrow>
            fst (deploy_files d tmp_dir root_dir walk template_vars rsync_status)
              = Inl CalledProcessError \<and>
            tmp_dir \<in> scratch_dirs
              (snd (deploy_files d tmp_dir root_dir walk template_vars rsync_status)))"
  using assms by (simp add: deploy_files_def Let_def)

theorem deploy_files_cleanup_witness:
  "render_tree [(''active_master'', ''a.example'')] ''/tmp/tmpAB'' ''deploy.generic''
      [(''deploy.generic/root'', [(''vars.sh'', ''M={{active_master}}'')])]
     = Inr [(''/tmp/tmpAB/root/vars.sh'', ''M=a.example'')]
   \<and> ''/tmp/tmpAB'' \<notin> scratch_dirs (snd (deploy_files \<lparr>scratch_dirs = {}, pushed = []\<rparr>
      ''/tmp/tmpAB'' ''deploy.generic''
      [(''deploy.generic/root'', [(''vars.sh'', ''M={{active_master}}'')])]
      [(''active_master'', ''a.example'')] 0))
   \<and> fst (deploy_files \<lparr>scratch_dirs = {}, pushed = []\<rparr>
      ''/tmp/tmpAB'' ''deploy.generic''
      [(''deploy.generic/root'', [(''vars.sh'', ''M={{active_master}}'')])]
      [(''active_master'', ''a.example'')] 1) = Inl CalledProcessError"
proof -
  have r: "render_tree [(''active_master'', ''a.example'')] ''/tmp/tmpAB'' ''deploy.generic''
      [(''deploy.generic/root'', [(''vars.sh'', ''M={{active_master}}'')])]
     = Inr [(''/tmp/tmpAB/root/vars.sh'', ''M=a.example'')]"
    by (simp add: deployable_def os_path_join_def render_text_def str_replace_def
          placeholder_def)
  show ?thesis
    using r deploy_files_cleanup [OF r, of 0 "\<lparr>scratch_dirs = {}, pushed = []\<rparr>"]
      deploy_files_cleanup [OF r, of 1 "\<lparr>scratch_dirs = {}, pushed = []\<rparr>"]
    by simp
qed

section \<open>Rendering a template\<close>

















section \<open>Deleting the security groups is bounded\<close>

lemma attempts_simps [simp]:
  "attempts [] = 0"
  "attempts (ListSecurityGroups # es) = Suc (attempts es)"
  "attempts (Revoke g r gr # es) = attempts es"
  "attempts (DeleteSecurityGroup n # es) = attempts es"
  "attempts (Sleep k # es) = attempts es"
  "attempts (Stdout s # es) = attempts es"
  "attempts (es @ es') = attempts es + attempts es'"
  by (simp_all add: attempts_def)














end
